theory Spec2Isabelle
  imports Complex_Main
begin

section \<open>Farfield post-processing helpers of cst\_python\_api (farfield.py)\<close>

text \<open>
  The module farfield.py holds one validator and two extractors. Each extractor calls the
  validator, issues one query to the external project (\<open>myCST.Results.getFarField\<close>),
  checks and parses the answer, and reduces two numbers to one decibel figure.

  Conventions of the embedding:
  \<^item> Python values that reach the validator are dynamically typed, so the arguments
    \<open>target_freq\<close>, \<open>port\<close> and \<open>mode\<close> are values of the datatype \<open>pyval\<close>.
  \<^item> Every \<open>raise\<close> is a value \<open>Inl e\<close> of a sum type; a normal return is \<open>Inr v\<close>.
  \<^item> The external query is the only effect. Each extractor returns, next to its outcome,
    the list of queries it has issued.
  \<^item> A finite Python float is represented by the real number it denotes, and the values
    of type \<open>float64\<close> add the two infinities and \<open>nan\<close>. The range of a double is
    modelled: a power that overflows raises \<open>OverflowError\<close>, a sum, difference or
    quotient that overflows is an infinity, a power or quotient that underflows is zero.
    Rounding inside the range is not modelled.
\<close>

subsection \<open>Values, exceptions, the external project\<close>

datatype pyval = PyNone | PyBool bool | PyInt int | PyFloat real | PyStr string

text \<open>\<open>isinstance(v, (float, int))\<close> and \<open>isinstance(v, int)\<close>; \<open>bool\<close> is a subclass of \<open>int\<close>.\<close>

fun isinstance_float_int :: "pyval \<Rightarrow> bool" where
  "isinstance_float_int (PyBool b) = True"
| "isinstance_float_int (PyInt i) = True"
| "isinstance_float_int (PyFloat x) = True"
| "isinstance_float_int v = False"

fun isinstance_int :: "pyval \<Rightarrow> bool" where
  "isinstance_int (PyBool b) = True"
| "isinstance_int (PyInt i) = True"
| "isinstance_int v = False"

text \<open>The integer an \<open>int\<close> instance compares as (\<open>True\<close> is 1, \<open>False\<close> is 0).\<close>

fun int_value :: "pyval \<Rightarrow> int" where
  "int_value (PyInt i) = i"
| "int_value (PyBool b) = (if b then 1 else 0)"
| "int_value v = 0"

datatype pyexn =
    TypeError string
  | ValueError string
  | RuntimeError string
  | ZeroDivisionError string
  | OverflowError

datatype exn_kind =
  TypeError_kind | ValueError_kind | RuntimeError_kind | ZeroDivisionError_kind | OverflowError_kind

fun kind_of :: "pyexn \<Rightarrow> exn_kind" where
  "kind_of (TypeError m) = TypeError_kind"
| "kind_of (ValueError m) = ValueError_kind"
| "kind_of (RuntimeError m) = RuntimeError_kind"
| "kind_of (ZeroDivisionError m) = ZeroDivisionError_kind"
| "kind_of OverflowError = OverflowError_kind"

text \<open>
  An element of the answer of \<open>getFarField\<close>, seen through
  \<open>float(np.asarray(x).item())\<close>: either that chain yields a finite float, or it raises.
\<close>

datatype ff_item = Scalar real | NonScalar

fun item_to_float :: "ff_item \<Rightarrow> real option" where
  "item_to_float (Scalar x) = Some x"
| "item_to_float NonScalar = None"

text \<open>Python's \<open>xs[i]\<close> for a constant \<open>i \<ge> 0\<close>: out of range it raises an \<open>IndexError\<close>.\<close>

definition py_index :: "'a list \<Rightarrow> nat \<Rightarrow> 'a option" where
  "py_index xs i = (if i < length xs then Some (xs ! i) else None)"

text \<open>
  \<open>float(np.asarray(results[i]).item())\<close> inside the \<open>try\<close> whose handler catches every
  \<open>Exception\<close>: \<open>None\<close> stands for any exception raised on the way.
\<close>

definition extract_component :: "ff_item list \<Rightarrow> nat \<Rightarrow> real option" where
  "extract_component results i =
     (case py_index results i of None \<Rightarrow> None | Some x \<Rightarrow> item_to_float x)"

text \<open>
  The attribute \<open>excepinfo\<close> of a \<open>pywintypes.com_error\<close>: absent, \<open>None\<close> (pywin32 stores
  \<open>None\<close> when the COM call supplied no exception record), or a tuple whose entry 2 is the
  description, a string or \<open>None\<close>.
\<close>

datatype excepinfo = Excepinfo_absent | Excepinfo_None | Excepinfo_tuple "string option"

text \<open>What the external call can raise: a \<open>com_error\<close>, or another \<open>Exception\<close> with its \<open>str\<close>.\<close>

datatype cst_failure = Com_error excepinfo | Other_exception string

record farfield_query =
  ff_freq :: pyval
  ff_theta :: "real list"
  ff_phi :: "real list"
  ff_port :: pyval
  ff_mode :: pyval
  ff_plotMode :: string
  ff_coordSys :: string
  ff_polarization :: string
  ff_component :: "string list"
  ff_complexComp :: "string list"
  ff_linearScale :: bool

text \<open>The project wrapper \<open>myCST\<close>; its field stands for \<open>myCST.Results.getFarField\<close>.\<close>

record cst_project =
  getFarField :: "farfield_query \<Rightarrow> cst_failure + ff_item list"

subsection \<open>Coroutines\<close>

text \<open>
  Calling a function declared \<open>async def\<close> runs none of its body: it returns a coroutine
  object, and the body runs when that object is awaited.
\<close>

datatype 'a coroutine = Coroutine "unit \<Rightarrow> pyexn + 'a"

fun await :: "'a coroutine \<Rightarrow> pyexn + 'a" where
  "await (Coroutine body) = body ()"

subsection \<open>Float arithmetic\<close>

datatype float64 = Fin real | PosInf | NegInf | NaN

text \<open>
  The range of a double under round-to-nearest: a result of magnitude \<open>2^1024 - 2^970\<close> or
  more (half an ulp above the largest double) overflows, and a result of magnitude
  \<open>2^-1075\<close> or less (half the smallest subnormal) becomes zero.
\<close>

definition overflow_threshold :: real where
  "overflow_threshold = 2 ^ 1024 - 2 ^ 970"

definition underflow_threshold :: real where
  "underflow_threshold = 1 / 2 ^ 1075"

text \<open>Sums and differences of doubles overflow but never underflow.\<close>

definition round_overflow :: "real \<Rightarrow> float64" where
  "round_overflow r =
     (if overflow_threshold \<le> r then PosInf
      else if r \<le> - overflow_threshold then NegInf
      else Fin r)"

text \<open>Quotients and powers overflow and underflow.\<close>

definition round_range :: "real \<Rightarrow> float64" where
  "round_range r = (if \<bar>r\<bar> \<le> underflow_threshold then Fin 0 else round_overflow r)"

text \<open>The reals that \<open>round_range\<close> leaves alone.\<close>

definition double_range :: "real \<Rightarrow> bool" where
  "double_range r = (\<bar>r\<bar> < overflow_threshold \<and> (r = 0 \<or> underflow_threshold < \<bar>r\<bar>))"

text \<open>The float operators \<open>+\<close>, unary \<open>-\<close>, \<open>-\<close> and \<open>>\<close>.\<close>

fun float_add :: "float64 \<Rightarrow> float64 \<Rightarrow> float64" where
  "float_add (Fin a) (Fin b) = round_overflow (a + b)"
| "float_add NaN y = NaN"
| "float_add x NaN = NaN"
| "float_add PosInf NegInf = NaN"
| "float_add NegInf PosInf = NaN"
| "float_add PosInf y = PosInf"
| "float_add x PosInf = PosInf"
| "float_add NegInf y = NegInf"
| "float_add x NegInf = NegInf"

fun float_neg :: "float64 \<Rightarrow> float64" where
  "float_neg (Fin a) = Fin (- a)"
| "float_neg PosInf = NegInf"
| "float_neg NegInf = PosInf"
| "float_neg NaN = NaN"

definition float_sub :: "float64 \<Rightarrow> float64 \<Rightarrow> float64" where
  "float_sub x y = float_add x (float_neg y)"

fun float_gt :: "float64 \<Rightarrow> float64 \<Rightarrow> bool" where
  "float_gt NaN y = False"
| "float_gt x NaN = False"
| "float_gt (Fin a) (Fin b) = (b < a)"
| "float_gt PosInf PosInf = False"
| "float_gt PosInf y = True"
| "float_gt x PosInf = False"
| "float_gt NegInf y = False"
| "float_gt x NegInf = True"

text \<open>The builtin \<open>max(a, b)\<close>: it keeps \<open>a\<close> unless \<open>b > a\<close>.\<close>

definition py_max :: "float64 \<Rightarrow> float64 \<Rightarrow> float64" where
  "py_max a b = (if float_gt b a then b else a)"

text \<open>The quotient of IEEE arithmetic (zeros carry no sign here).\<close>

fun float_div :: "float64 \<Rightarrow> float64 \<Rightarrow> float64" where
  "float_div (Fin a) (Fin b) =
     (if b = 0 then (if a = 0 then NaN else if 0 < a then PosInf else NegInf)
      else round_range (a / b))"
| "float_div NaN y = NaN"
| "float_div x NaN = NaN"
| "float_div (Fin a) y = Fin 0"
| "float_div PosInf (Fin b) = (if 0 \<le> b then PosInf else NegInf)"
| "float_div NegInf (Fin b) = (if 0 \<le> b then NegInf else PosInf)"
| "float_div x y = NaN"

text \<open>Python's \<open>/\<close> on floats raises on a zero divisor.\<close>

definition py_truediv :: "float64 \<Rightarrow> float64 \<Rightarrow> pyexn + float64" where
  "py_truediv x y =
     (if y = Fin 0 then Inl (ZeroDivisionError ''float division by zero'')
      else Inr (float_div x y))"

text \<open>
  Python's \<open>10.0 ** y\<close> for a finite float \<open>y\<close>: the power is positive; it raises
  \<open>OverflowError\<close> when it overflows and is \<open>0.0\<close> when it underflows.
\<close>

definition py_pow10 :: "real \<Rightarrow> pyexn + float64" where
  "py_pow10 y =
     (if overflow_threshold \<le> 10 powr y then Inl OverflowError
      else Inr (round_range (10 powr y)))"

text \<open>\<open>numpy.log10\<close> is total: \<open>-inf\<close> at zero, \<open>nan\<close> below zero.\<close>

fun np_log10 :: "float64 \<Rightarrow> float64" where
  "np_log10 (Fin x) = (if 0 < x then Fin (log 10 x) else if x = 0 then NegInf else NaN)"
| "np_log10 PosInf = PosInf"
| "np_log10 NegInf = NaN"
| "np_log10 NaN = NaN"

text \<open>
  A float constant times a \<open>numpy.float64\<close>. The constant is \<open>10.0\<close> or \<open>20.0\<close> and the
  finite operand is a decimal logarithm of a double, of magnitude below 324 and, unless
  zero, above \<open>10^-17\<close>: the product stays in range.
\<close>

fun np_mul :: "real \<Rightarrow> float64 \<Rightarrow> float64" where
  "np_mul c (Fin x) = Fin (c * x)"
| "np_mul c PosInf = (if 0 < c then PosInf else if c < 0 then NegInf else NaN)"
| "np_mul c NegInf = (if 0 < c then NegInf else if c < 0 then PosInf else NaN)"
| "np_mul c NaN = NaN"

subsection \<open>The validator\<close>

text \<open>\<open>async def _validate_common_inputs(myCST, target_freq, port, mode)\<close>\<close>

definition validate_common_inputs ::
  "cst_project option \<Rightarrow> pyval \<Rightarrow> pyval \<Rightarrow> pyval \<Rightarrow> unit coroutine" where
  "validate_common_inputs myCST target_freq port mode = Coroutine (\<lambda>_.
     if myCST = None then Inl (TypeError ''ERROR: myCST object must be provided.'')
     else if \<not> isinstance_float_int target_freq then
       Inl (TypeError ''ERROR: target_freq must be float or int.'')
     else if \<not> isinstance_int port then Inl (TypeError ''ERROR: port must be of type int.'')
     else if int_value port < 1 then Inl (ValueError ''ERROR: port must be an integer >= 1.'')
     else if \<not> isinstance_int mode then Inl (TypeError ''ERROR: mode must be of type int.'')
     else if int_value mode < 0 then Inl (ValueError ''ERROR: mode must be an integer >= 0.'')
     else Inr ())"

subsection \<open>The external call\<close>

text \<open>The keyword arguments of the two calls of \<open>getFarField\<close>.\<close>

definition gain_query :: "pyval \<Rightarrow> pyval \<Rightarrow> pyval \<Rightarrow> farfield_query" where
  "gain_query target_freq port mode =
     \<lparr>ff_freq = target_freq, ff_theta = [0], ff_phi = [0], ff_port = port, ff_mode = mode,
      ff_plotMode = ''realized gain'', ff_coordSys = ''spherical'',
      ff_polarization = ''circular'', ff_component = [''theta'', ''phi''],
      ff_complexComp = [''abs'', ''abs''], ff_linearScale = False\<rparr>"

definition axial_ratio_query :: "pyval \<Rightarrow> pyval \<Rightarrow> pyval \<Rightarrow> farfield_query" where
  "axial_ratio_query target_freq port mode =
     \<lparr>ff_freq = target_freq, ff_theta = [0], ff_phi = [0], ff_port = port, ff_mode = mode,
      ff_plotMode = ''efield'', ff_coordSys = ''spherical'',
      ff_polarization = ''circular'', ff_component = [''right'', ''left''],
      ff_complexComp = [''abs'', ''abs''], ff_linearScale = True\<rparr>"

text \<open>
  \<open>await myCST.Results.getFarField(...)\<close>: on \<open>None\<close> the attribute access raises an
  \<open>AttributeError\<close> and nothing is sent; otherwise the query is issued and recorded.
\<close>

definition call_getFarField ::
  "cst_project option \<Rightarrow> farfield_query \<Rightarrow> (cst_failure + ff_item list) \<times> farfield_query list" where
  "call_getFarField myCST q =
     (case myCST of
        None \<Rightarrow>
          (Inl (Other_exception
             ([CHR 0x27] @ ''NoneType'' @ [CHR 0x27] @ '' object has no attribute '' @
              [CHR 0x27] @ ''Results'' @ [CHR 0x27])), [])
      | Some c \<Rightarrow> (getFarField c q, [q]))"

text \<open>
  The two \<open>except\<close> clauses around the call. In the first, \<open>details[2]\<close> subscripts the
  attribute \<open>excepinfo\<close> (the default tuple \<open>(None, None, "")\<close> stands in only when the
  attribute is absent); subscripting \<open>None\<close> raises a \<open>TypeError\<close> inside the handler, which
  no clause of the same \<open>try\<close> catches. An f-string prints \<open>None\<close> as \<open>None\<close>.
\<close>

definition wrap_failure :: "cst_failure \<Rightarrow> pyexn" where
  "wrap_failure err =
     (case err of
        Com_error Excepinfo_absent \<Rightarrow>
          RuntimeError (''ERROR: CST failed to retrieve farfield data. Details: '' @ '''')
      | Com_error Excepinfo_None \<Rightarrow>
          TypeError ([CHR 0x27] @ ''NoneType'' @ [CHR 0x27] @ '' object is not subscriptable'')
      | Com_error (Excepinfo_tuple None) \<Rightarrow>
          RuntimeError (''ERROR: CST failed to retrieve farfield data. Details: '' @ ''None'')
      | Com_error (Excepinfo_tuple (Some text)) \<Rightarrow>
          RuntimeError (''ERROR: CST failed to retrieve farfield data. Details: '' @ text)
      | Other_exception msg \<Rightarrow>
          RuntimeError (''ERROR: Unexpected failure retrieving farfield results. '' @ msg))"

subsection \<open>The extractors\<close>

text \<open>
  \<open>async def get_gain_at_freq(myCST, *, target_freq, port, mode)\<close>. Its first statement
  calls the validator without \<open>await\<close>: the coroutine object is built and dropped. The
  reduction runs outside every \<open>try\<close>, so an \<open>OverflowError\<close> of a power reaches the caller.
  Dividing a finite float by \<open>10.0\<close> cannot overflow.
\<close>

definition get_gain_at_freq ::
  "cst_project option \<Rightarrow> pyval \<Rightarrow> pyval \<Rightarrow> pyval \<Rightarrow> (pyexn + float64) \<times> farfield_query list" where
  "get_gain_at_freq myCST target_freq port mode =
     (let unawaited = validate_common_inputs myCST target_freq port mode;
          (outcome, issued) = call_getFarField myCST (gain_query target_freq port mode)
      in (case outcome of
            Inl err \<Rightarrow> Inl (wrap_failure err)
          | Inr farfield_results_gain \<Rightarrow>
              if farfield_results_gain = [] \<or> length farfield_results_gain < 2 then
                Inl (RuntimeError ''ERROR: Farfield results are empty or incomplete.'')
              else
                (case (extract_component farfield_results_gain 0,
                       extract_component farfield_results_gain 1) of
                   (Some theta_component, Some phi_component) \<Rightarrow>
                     (case py_pow10 (theta_component / 10) of
                        Inl e \<Rightarrow> Inl e
                      | Inr theta_linear \<Rightarrow>
                          (case py_pow10 (phi_component / 10) of
                             Inl e \<Rightarrow> Inl e
                           | Inr phi_linear \<Rightarrow>
                               Inr (np_mul 10 (np_log10 (float_add theta_linear phi_linear)))))
                 | _ \<Rightarrow>
                     Inl (RuntimeError
                       ''ERROR: Could not extract theta/phi values from CST farfield.'')),
          issued))"

text \<open>
  \<open>async def get_axial_ratio_at_freq(myCST, *, target_freq, port, mode)\<close>, with the same
  unawaited call of the validator. The literal \<open>1e-300\<close> is \<open>1 / 10 ^ 300\<close>.
\<close>

definition get_axial_ratio_at_freq ::
  "cst_project option \<Rightarrow> pyval \<Rightarrow> pyval \<Rightarrow> pyval \<Rightarrow> (pyexn + float64) \<times> farfield_query list" where
  "get_axial_ratio_at_freq myCST target_freq port mode =
     (let unawaited = validate_common_inputs myCST target_freq port mode;
          (outcome, issued) = call_getFarField myCST (axial_ratio_query target_freq port mode)
      in (case outcome of
            Inl err \<Rightarrow> Inl (wrap_failure err)
          | Inr farfield_results \<Rightarrow>
              if farfield_results = [] \<or> length farfield_results < 2 then
                Inl (RuntimeError ''ERROR: Farfield results are empty or incomplete.'')
              else
                (case (extract_component farfield_results 0,
                       extract_component farfield_results 1) of
                   (Some right, Some left) \<Rightarrow>
                     (let (emax, emin) = (if right \<ge> left then (right, left) else (left, right));
                          numerator = float_add (Fin emax) (Fin emin);
                          denominator = py_max (float_sub (Fin emax) (Fin emin)) (Fin (1 / 10 ^ 300))
                      in (case py_truediv numerator denominator of
                            Inl e \<Rightarrow> Inl e
                          | Inr ar_linear \<Rightarrow> Inr (np_mul 20 (np_log10 ar_linear))))
                 | _ \<Rightarrow>
                     Inl (RuntimeError
                       ''ERROR: Could not extract circular components from CST farfield.'')),
          issued))"

text \<open>A stand-in project that answers every query with the same outcome.\<close>

definition stub_project :: "cst_failure + ff_item list \<Rightarrow> cst_project" where
  "stub_project answer = \<lparr>getFarField = (\<lambda>q. answer)\<rparr>"

section \<open>Properties\<close>

subsection \<open>Shared facts\<close>

lemma call_getFarField_Some: "call_getFarField (Some c) q = (getFarField c q, [q])"
  by (simp add: call_getFarField_def)

lemma extract_component_0: "extract_component (x # xs) 0 = item_to_float x"
  by (simp add: extract_component_def py_index_def)

lemma extract_component_1: "extract_component (x # y # xs) (Suc 0) = item_to_float y"
  by (simp add: extract_component_def py_index_def)

lemma linear_sum_pos: "0 < (10::real) powr a + 10 powr b"
  by (simp add: add_pos_pos)

lemma log10_scaled: "0 < x \<Longrightarrow> log 10 (x * 10 ^ n) = log 10 x + real n"
  by (simp add: log_mult log_nat_power)

lemma floor_pos: "0 < (1 / 10 ^ 300 :: real)"
  by simp

subsection \<open>The range of a double\<close>

lemma underflow_threshold_below_one: "underflow_threshold < 1"
  by (simp add: underflow_threshold_def)

lemma overflow_threshold_above_20: "20 < overflow_threshold"
  by (simp add: overflow_threshold_def)

lemma round_overflow_inside: "\<bar>r\<bar> < overflow_threshold \<Longrightarrow> round_overflow r = Fin r"
  by (simp add: round_overflow_def abs_less_iff)

lemma round_range_inside: "double_range r \<Longrightarrow> round_range r = Fin r"
  by (auto simp add: double_range_def round_range_def round_overflow_inside underflow_threshold_def)

lemma float_add_commute: "float_add x y = float_add y x"
  by (cases x; cases y) (simp_all add: add.commute)

lemma py_max_floor_not_zero: "py_max d (Fin (1 / 10 ^ 300)) \<noteq> Fin 0"
  using floor_pos by (cases d) (auto simp add: py_max_def simp del: power_numeral)

lemma py_truediv_floor:
  "py_truediv n (py_max d (Fin (1 / 10 ^ 300))) = Inr (float_div n (py_max d (Fin (1 / 10 ^ 300))))"
  using py_max_floor_not_zero [of d] by (simp only: py_truediv_def if_False)

lemma py_pow10_inside:
  "underflow_threshold < 10 powr y \<Longrightarrow> 10 powr y < overflow_threshold \<Longrightarrow>
   py_pow10 y = Inr (Fin (10 powr y))"
  by (simp add: py_pow10_def round_range_def round_overflow_inside)



lemma py_pow10_raises: "py_pow10 y = Inl e \<Longrightarrow> e = OverflowError"
  by (auto simp add: py_pow10_def split: if_splits)

text \<open>Exponents between 0 and 1, as for components between 0 dB and 10 dB.\<close>

lemma pow10_unit_bounds:
  assumes "0 \<le> y" and "y \<le> 1"
  shows "1 \<le> (10::real) powr y" and "(10::real) powr y \<le> 10"
proof -
  have "(10::real) powr 0 \<le> 10 powr y"
    using assms(1) by (intro powr_mono) simp_all
  then show "1 \<le> (10::real) powr y"
    by simp
  have "(10::real) powr y \<le> 10 powr 1"
    using assms(2) by (intro powr_mono) simp_all
  then show "(10::real) powr y \<le> 10"
    by simp
qed

lemma py_pow10_unit:
  assumes "0 \<le> y" and "y \<le> 1"
  shows "py_pow10 y = Inr (Fin (10 powr y))"
proof (rule py_pow10_inside)
  from underflow_threshold_below_one pow10_unit_bounds(1) [OF assms] show "underflow_threshold < 10 powr y"
    by linarith
  from overflow_threshold_above_20 pow10_unit_bounds(2) [OF assms] show "10 powr y < overflow_threshold"
    by linarith
qed

lemma float_add_unit:
  assumes "0 \<le> a" "a \<le> 1" "0 \<le> b" "b \<le> 1"
  shows "float_add (Fin (10 powr a)) (Fin (10 powr b)) = Fin (10 powr a + 10 powr b)"
proof -
  from overflow_threshold_above_20 pow10_unit_bounds [OF assms(1,2)]
    pow10_unit_bounds [OF assms(3,4)]
  have "\<bar>10 powr a + 10 powr b\<bar> < overflow_threshold"
    by simp
  then show ?thesis
    by (simp add: round_overflow_inside)
qed

text \<open>
  The query goes out whatever the arguments are: no statement of either extractor looks at
  \<open>target_freq\<close>, \<open>port\<close> or \<open>mode\<close> before the call.
\<close>

lemma get_gain_at_freq_issues_query:
  "snd (get_gain_at_freq (Some c) target_freq port mode) = [gain_query target_freq port mode]"
  by (simp add: get_gain_at_freq_def call_getFarField_Some)

lemma get_axial_ratio_at_freq_issues_query:
  "snd (get_axial_ratio_at_freq (Some c) target_freq port mode) =
     [axial_ratio_query target_freq port mode]"
  by (simp add: get_axial_ratio_at_freq_def call_getFarField_Some)

subsection \<open>The validator, when it is awaited\<close>

lemma validate_rejects_non_real:
  "\<not> isinstance_float_int target_freq \<Longrightarrow>
   await (validate_common_inputs (Some c) target_freq port mode) =
     Inl (TypeError ''ERROR: target_freq must be float or int.'')"
  by (simp add: validate_common_inputs_def)

lemma validate_rejects_low_port:
  "isinstance_float_int target_freq \<Longrightarrow> i < 1 \<Longrightarrow>
   await (validate_common_inputs (Some c) target_freq (PyInt i) mode) =
     Inl (ValueError ''ERROR: port must be an integer >= 1.'')"
  by (simp add: validate_common_inputs_def)

lemma validate_rejects_low_mode:
  "isinstance_float_int target_freq \<Longrightarrow> 1 \<le> i \<Longrightarrow> j < 0 \<Longrightarrow>
   await (validate_common_inputs (Some c) target_freq (PyInt i) (PyInt j)) =
     Inl (ValueError ''ERROR: mode must be an integer >= 0.'')"
  by (simp add: validate_common_inputs_def)

lemma validate_accepts:
  "isinstance_float_int target_freq \<Longrightarrow> 1 \<le> i \<Longrightarrow> 0 \<le> j \<Longrightarrow>
   await (validate_common_inputs (Some c) target_freq (PyInt i) (PyInt j)) = Inr ()"
  by (simp add: validate_common_inputs_def)

subsection \<open>Gain\<close>

lemma gain_inside:
  assumes "getFarField c (gain_query target_freq port mode) =
             Inr (Scalar g_theta # Scalar g_phi # rest)"
    and "py_pow10 (g_theta / 10) = Inr (Fin p)"
    and "py_pow10 (g_phi / 10) = Inr (Fin q)"
    and "float_add (Fin p) (Fin q) = Fin (p + q)"
    and "0 < p + q"
  shows "get_gain_at_freq (Some c) target_freq port mode =
           (Inr (Fin (10 * log 10 (p + q))), [gain_query target_freq port mode])"
  using assms
  by (simp add: get_gain_at_freq_def call_getFarField_Some extract_component_0
      extract_component_1)

lemma gain_overflow_raises:
  assumes "getFarField c (gain_query target_freq port mode) =
             Inr (Scalar g_theta # Scalar g_phi # rest)"
    and "overflow_threshold \<le> 10 powr (g_theta / 10) \<or>
         overflow_threshold \<le> 10 powr (g_phi / 10)"
  shows "get_gain_at_freq (Some c) target_freq port mode =
           (Inl OverflowError, [gain_query target_freq port mode])"
proof -
  have "py_pow10 (g_theta / 10) = Inl OverflowError \<or>
        (\<exists>v. py_pow10 (g_theta / 10) = Inr v) \<and> py_pow10 (g_phi / 10) = Inl OverflowError"
    using assms(2) by (auto simp add: py_pow10_def)
  then show ?thesis
    using assms(1)
    by (auto simp add: get_gain_at_freq_def call_getFarField_Some extract_component_0
        extract_component_1)
qed




text \<open>
  C9. The gain does not depend on the order of the two components: a project answering
  \<open>(g_theta, g_phi)\<close> and one answering \<open>(g_phi, g_theta)\<close> give the same result.
\<close>

theorem get_gain_at_freq_commutative:
  assumes "getFarField c1 (gain_query target_freq port mode) = Inr [Scalar g_theta, Scalar g_phi]"
    and "getFarField c2 (gain_query target_freq port mode) = Inr [Scalar g_phi, Scalar g_theta]"
  shows "get_gain_at_freq (Some c1) target_freq port mode =
         get_gain_at_freq (Some c2) target_freq port mode"
  using assms
  by (auto simp add: get_gain_at_freq_def call_getFarField_Some extract_component_0
      extract_component_1 float_add_commute split: sum.splits dest: py_pow10_raises)

theorem get_gain_at_freq_commutative_witness:
  "getFarField (stub_project (Inr [Scalar 3, Scalar (-7)]))
     (gain_query (PyFloat (868 / 1000)) (PyInt 1) (PyInt 0)) = Inr [Scalar 3, Scalar (-7)] \<and>
   getFarField (stub_project (Inr [Scalar (-7), Scalar 3]))
     (gain_query (PyFloat (868 / 1000)) (PyInt 1) (PyInt 0)) = Inr [Scalar (-7), Scalar 3] \<and>
   get_gain_at_freq (Some (stub_project (Inr [Scalar 3, Scalar (-7)])))
     (PyFloat (868 / 1000)) (PyInt 1) (PyInt 0) =
   get_gain_at_freq (Some (stub_project (Inr [Scalar (-7), Scalar 3])))
     (PyFloat (868 / 1000)) (PyInt 1) (PyInt 0)"
proof -
  have h1: "getFarField (stub_project (Inr [Scalar 3, Scalar (-7)]))
     (gain_query (PyFloat (868 / 1000)) (PyInt 1) (PyInt 0)) = Inr [Scalar 3, Scalar (-7)]"
    by (simp add: stub_project_def)
  have h2: "getFarField (stub_project (Inr [Scalar (-7), Scalar 3]))
     (gain_query (PyFloat (868 / 1000)) (PyInt 1) (PyInt 0)) = Inr [Scalar (-7), Scalar 3]"
    by (simp add: stub_project_def)
  from h1 h2 get_gain_at_freq_commutative [OF h1 h2] show ?thesis
    by (intro conjI)
qed

subsection \<open>Axial ratio\<close>

lemma axial_ratio_reduction:
  assumes "getFarField c (axial_ratio_query target_freq port mode) =
             Inr (Scalar right # Scalar left # rest)"
  shows "fst (get_axial_ratio_at_freq (Some c) target_freq port mode) =
           Inr (np_mul 20 (np_log10
             (float_div (float_add (Fin (max right left)) (Fin (min right left)))
                (py_max (float_sub (Fin (max right left)) (Fin (min right left)))
                   (Fin (1 / 10 ^ 300))))))"
proof (cases "left \<le> right")
  case True
  then have m: "max right left = right" "min right left = left"
    by (simp_all add: max_def min_def)
  show ?thesis
    unfolding m using assms True
    by (simp add: get_axial_ratio_at_freq_def call_getFarField_Some extract_component_0
        extract_component_1 py_truediv_floor del: power_numeral)
next
  case False
  then have m: "max right left = left" "min right left = right"
    by (simp_all add: max_def min_def)
  show ?thesis
    unfolding m using assms False
    by (simp add: get_axial_ratio_at_freq_def call_getFarField_Some extract_component_0
        extract_component_1 py_truediv_floor del: power_numeral)
qed

text \<open>The reduction in the reals, when sum, difference and quotient stay in range.\<close>

lemma axial_ratio_inside:
  assumes "\<bar>a + b\<bar> < overflow_threshold"
    and "\<bar>a - b\<bar> < overflow_threshold"
    and "double_range ((a + b) / max (a - b) (1 / 10 ^ 300))"
  shows "float_div (float_add (Fin a) (Fin b)) (py_max (float_sub (Fin a) (Fin b)) (Fin (1 / 10 ^ 300))) =
           Fin ((a + b) / max (a - b) (1 / 10 ^ 300))"
proof -
  have s: "float_add (Fin a) (Fin b) = Fin (a + b)"
    using assms(1) by (simp add: round_overflow_inside)
  have d: "float_sub (Fin a) (Fin b) = Fin (a - b)"
    using assms(2) by (simp add: float_sub_def round_overflow_inside)
  have m: "py_max (Fin (a - b)) (Fin (1 / 10 ^ 300)) = Fin (max (a - b) (1 / 10 ^ 300))"
    by (simp add: py_max_def max_def del: power_numeral)
  have "0 < max (a - b) (1 / 10 ^ 300 :: real)"
    by (rule less_max_iff_disj [THEN iffD2, OF disjI2]) (rule floor_pos)
  then have nz: "max (a - b) (1 / 10 ^ 300 :: real) \<noteq> 0"
    by (metis less_irrefl)
  show ?thesis
    unfolding s d m using nz assms(3)
    by (simp add: round_range_inside del: power_numeral)
qed




text \<open>
  C10. The axial ratio does not depend on the order of the two components: a project
  answering \<open>(right, left)\<close> and one answering \<open>(left, right)\<close> give the same result.
\<close>

theorem get_axial_ratio_at_freq_symmetric:
  assumes "getFarField c1 (axial_ratio_query target_freq port mode) = Inr [Scalar right, Scalar left]"
    and "getFarField c2 (axial_ratio_query target_freq port mode) = Inr [Scalar left, Scalar right]"
  shows "get_axial_ratio_at_freq (Some c1) target_freq port mode =
         get_axial_ratio_at_freq (Some c2) target_freq port mode"
proof -
  have "fst (get_axial_ratio_at_freq (Some c1) target_freq port mode) =
        fst (get_axial_ratio_at_freq (Some c2) target_freq port mode)"
    unfolding axial_ratio_reduction [OF assms(1)] axial_ratio_reduction [OF assms(2)]
    by (simp only: max.commute [of left right] min.commute [of left right])
  moreover have "snd (get_axial_ratio_at_freq (Some c1) target_freq port mode) =
        snd (get_axial_ratio_at_freq (Some c2) target_freq port mode)"
    by (simp only: get_axial_ratio_at_freq_issues_query)
  ultimately show ?thesis
    by (rule prod_eqI)
qed

theorem get_axial_ratio_at_freq_symmetric_witness:
  "getFarField (stub_project (Inr [Scalar 1, Scalar 3]))
     (axial_ratio_query (PyFloat (868 / 1000)) (PyInt 1) (PyInt 0)) = Inr [Scalar 1, Scalar 3] \<and>
   getFarField (stub_project (Inr [Scalar 3, Scalar 1]))
     (axial_ratio_query (PyFloat (868 / 1000)) (PyInt 1) (PyInt 0)) = Inr [Scalar 3, Scalar 1] \<and>
   get_axial_ratio_at_freq (Some (stub_project (Inr [Scalar 1, Scalar 3])))
     (PyFloat (868 / 1000)) (PyInt 1) (PyInt 0) =
   get_axial_ratio_at_freq (Some (stub_project (Inr [Scalar 3, Scalar 1])))
     (PyFloat (868 / 1000)) (PyInt 1) (PyInt 0)"
proof -
  have h1: "getFarField (stub_project (Inr [Scalar 1, Scalar 3]))
     (axial_ratio_query (PyFloat (868 / 1000)) (PyInt 1) (PyInt 0)) = Inr [Scalar 1, Scalar 3]"
    by (simp add: stub_project_def)
  have h2: "getFarField (stub_project (Inr [Scalar 3, Scalar 1]))
     (axial_ratio_query (PyFloat (868 / 1000)) (PyInt 1) (PyInt 0)) = Inr [Scalar 3, Scalar 1]"
    by (simp add: stub_project_def)
  from h1 h2 get_axial_ratio_at_freq_symmetric [OF h1 h2] show ?thesis
    by (intro conjI)
qed

text \<open>
  C8. When the electric-field query answers \<open>right = left = 1.0\<close>, the difference
  \<open>emax - emin\<close> is zero and is floored to \<open>1e-300\<close>: \<open>get_axial_ratio_at_freq\<close> raises
  nothing and returns the finite number \<open>20 * log10(2e300)\<close>, which lies between 6000 and
  6020.
\<close>

theorem get_axial_ratio_at_freq_circular:
  assumes "getFarField c (axial_ratio_query target_freq port mode) =
             Inr (Scalar 1 # Scalar 1 # rest)"
  shows "get_axial_ratio_at_freq (Some c) target_freq port mode =
           (Inr (Fin (20 * log 10 (2 * 10 ^ 300))), [axial_ratio_query target_freq port mode]) \<and>
         6000 < 20 * log 10 (2 * 10 ^ 300 :: real) \<and>
         20 * log 10 (2 * 10 ^ 300 :: real) < 6020"
proof -
  have eq: "log 10 (2 * 10 ^ 300 :: real) = log 10 2 + real 300"
    by (rule log10_scaled) simp
  have lo: "0 < log 10 (2::real)"
    by simp
  have "log 10 (2::real) < log 10 10"
    by (subst log_less_cancel_iff) simp_all
  then have hi: "log 10 (2::real) < 1"
    by simp
  have "6000 < 20 * (log 10 2 + real 300) \<and> 20 * (log 10 2 + real 300) < 6020"
    using lo hi by simp
  then have bounds: "6000 < 20 * log 10 (2 * 10 ^ 300 :: real) \<and>
      20 * log 10 (2 * 10 ^ 300 :: real) < 6020"
    by (simp only: eq)
  have ratio: "((1::real) + 1) / max (1 - 1) (1 / 10 ^ 300) = 2 * 10 ^ 300"
    by (simp add: max_def del: power_numeral)
  have pos: "0 < (2 * 10 ^ 300 :: real)"
    by (simp del: power_numeral)
  have "double_range (2 * 10 ^ 300)"
    by (simp add: double_range_def overflow_threshold_def underflow_threshold_def)
  then have inside: "double_range (((1::real) + 1) / max (1 - 1) (1 / 10 ^ 300))"
    by (simp only: ratio)
  have s: "\<bar>(1::real) + 1\<bar> < overflow_threshold"
    using overflow_threshold_above_20 by simp
  have d: "\<bar>(1::real) - 1\<bar> < overflow_threshold"
    using overflow_threshold_above_20 by simp
  have "float_div (float_add (Fin 1) (Fin 1)) (py_max (float_sub (Fin 1) (Fin 1)) (Fin (1 / 10 ^ 300))) =
          Fin (((1::real) + 1) / max (1 - 1) (1 / 10 ^ 300))"
    by (rule axial_ratio_inside [OF s d inside])
  then have "float_div (float_add (Fin 1) (Fin 1)) (py_max (float_sub (Fin 1) (Fin 1)) (Fin (1 / 10 ^ 300))) =
          Fin (2 * 10 ^ 300)"
    by (simp only: ratio)
  then have "fst (get_axial_ratio_at_freq (Some c) target_freq port mode) =
          Inr (Fin (20 * log 10 (2 * 10 ^ 300)))"
    using axial_ratio_reduction [OF assms] pos
    by (simp del: power_numeral)
  moreover have "snd (get_axial_ratio_at_freq (Some c) target_freq port mode) =
          [axial_ratio_query target_freq port mode]"
    by (rule get_axial_ratio_at_freq_issues_query)
  ultimately have "get_axial_ratio_at_freq (Some c) target_freq port mode =
      (Inr (Fin (20 * log 10 (2 * 10 ^ 300))), [axial_ratio_query target_freq port mode])"
    by (simp add: prod_eq_iff del: power_numeral)
  with bounds show ?thesis
    by (intro conjI) (simp_all only:)
qed

theorem get_axial_ratio_at_freq_circular_witness:
  "getFarField (stub_project (Inr [Scalar 1, Scalar 1]))
     (axial_ratio_query (PyFloat (868 / 1000)) (PyInt 1) (PyInt 0)) = Inr [Scalar 1, Scalar 1] \<and>
   get_axial_ratio_at_freq (Some (stub_project (Inr [Scalar 1, Scalar 1])))
     (PyFloat (868 / 1000)) (PyInt 1) (PyInt 0) =
       (Inr (Fin (20 * log 10 (2 * 10 ^ 300))),
        [axial_ratio_query (PyFloat (868 / 1000)) (PyInt 1) (PyInt 0)]) \<and>
   6000 < 20 * log 10 (2 * 10 ^ 300 :: real)"
proof -
  have h: "getFarField (stub_project (Inr [Scalar 1, Scalar 1]))
     (axial_ratio_query (PyFloat (868 / 1000)) (PyInt 1) (PyInt 0)) = Inr [Scalar 1, Scalar 1]"
    by (simp add: stub_project_def)
  from h get_axial_ratio_at_freq_circular [OF h] show ?thesis
    by (intro conjI) (simp_all only:)
qed

subsection \<open>Incomplete answers\<close>

text \<open>
  C5. When the query answers with fewer than two components (none included), both
  extractors raise the \<open>RuntimeError\<close> "Farfield results are empty or incomplete": the
  length is checked before any component is read.
\<close>

theorem incomplete_results_rejected:
  assumes "getFarField cg (gain_query target_freq port mode) = Inr results_g"
    and "length results_g < 2"
    and "getFarField ca (axial_ratio_query target_freq port mode) = Inr results_a"
    and "length results_a < 2"
  shows "get_gain_at_freq (Some cg) target_freq port mode =
           (Inl (RuntimeError ''ERROR: Farfield results are empty or incomplete.''),
            [gain_query target_freq port mode]) \<and>
         get_axial_ratio_at_freq (Some ca) target_freq port mode =
           (Inl (RuntimeError ''ERROR: Farfield results are empty or incomplete.''),
            [axial_ratio_query target_freq port mode])"
proof
  show "get_gain_at_freq (Some cg) target_freq port mode =
           (Inl (RuntimeError ''ERROR: Farfield results are empty or incomplete.''),
            [gain_query target_freq port mode])"
    using assms(1,2) by (simp add: get_gain_at_freq_def call_getFarField_Some)
  show "get_axial_ratio_at_freq (Some ca) target_freq port mode =
           (Inl (RuntimeError ''ERROR: Farfield results are empty or incomplete.''),
            [axial_ratio_query target_freq port mode])"
    using assms(3,4) by (simp add: get_axial_ratio_at_freq_def call_getFarField_Some)
qed

theorem incomplete_results_rejected_witness:
  "length [Scalar 3] < 2 \<and> length ([] :: ff_item list) < 2 \<and>
   get_gain_at_freq (Some (stub_project (Inr [Scalar 3]))) (PyFloat (868 / 1000)) (PyInt 1) (PyInt 0) =
     (Inl (RuntimeError ''ERROR: Farfield results are empty or incomplete.''),
      [gain_query (PyFloat (868 / 1000)) (PyInt 1) (PyInt 0)]) \<and>
   get_axial_ratio_at_freq (Some (stub_project (Inr []))) (PyFloat (868 / 1000)) (PyInt 1) (PyInt 0) =
     (Inl (RuntimeError ''ERROR: Farfield results are empty or incomplete.''),
      [axial_ratio_query (PyFloat (868 / 1000)) (PyInt 1) (PyInt 0)])"
proof -
  have g: "getFarField (stub_project (Inr [Scalar 3]))
      (gain_query (PyFloat (868 / 1000)) (PyInt 1) (PyInt 0)) = Inr [Scalar 3]"
    by (simp add: stub_project_def)
  have a: "getFarField (stub_project (Inr []))
      (axial_ratio_query (PyFloat (868 / 1000)) (PyInt 1) (PyInt 0)) = Inr []"
    by (simp add: stub_project_def)
  have lg: "length [Scalar 3] < 2"
    by simp
  have la: "length ([] :: ff_item list) < 2"
    by simp
  from lg la incomplete_results_rejected [OF g lg a la] show ?thesis
    by (intro conjI) (simp_all only:)
qed

subsection \<open>Answers that do not parse\<close>

lemma unparsed_gain:
  assumes "getFarField c (gain_query target_freq port mode) = Inr results"
    and "2 \<le> length results"
    and "results ! 0 = NonScalar \<or> results ! 1 = NonScalar"
  shows "fst (get_gain_at_freq (Some c) target_freq port mode) =
           Inl (RuntimeError ''ERROR: Could not extract theta/phi values from CST farfield.'')"
proof -
  from assms(2) obtain x y rest where r: "results = x # y # rest"
    by (cases results; cases "tl results") auto
  with assms(3) have "item_to_float x = None \<or> item_to_float y = None"
    by auto
  then show ?thesis
    using assms(1) r
    by (auto simp add: get_gain_at_freq_def call_getFarField_Some extract_component_0
        extract_component_1 split: option.splits)
qed

lemma unparsed_axial_ratio:
  assumes "getFarField c (axial_ratio_query target_freq port mode) = Inr results"
    and "2 \<le> length results"
    and "results ! 0 = NonScalar \<or> results ! 1 = NonScalar"
  shows "fst (get_axial_ratio_at_freq (Some c) target_freq port mode) =
           Inl (RuntimeError ''ERROR: Could not extract circular components from CST farfield.'')"
proof -
  from assms(2) obtain x y rest where r: "results = x # y # rest"
    by (cases results; cases "tl results") auto
  with assms(3) have "item_to_float x = None \<or> item_to_float y = None"
    by auto
  then show ?thesis
    using assms(1) r
    by (auto simp add: get_axial_ratio_at_freq_def call_getFarField_Some extract_component_0
        extract_component_1 split: option.splits)
qed

lemma incomplete_gain:
  "getFarField c (gain_query target_freq port mode) = Inr results \<Longrightarrow> length results < 2 \<Longrightarrow>
   fst (get_gain_at_freq (Some c) target_freq port mode) =
     Inl (RuntimeError ''ERROR: Farfield results are empty or incomplete.'')"
  by (simp add: get_gain_at_freq_def call_getFarField_Some)

lemma incomplete_axial_ratio:
  "getFarField c (axial_ratio_query target_freq port mode) = Inr results \<Longrightarrow>
   length results < 2 \<Longrightarrow>
   fst (get_axial_ratio_at_freq (Some c) target_freq port mode) =
     Inl (RuntimeError ''ERROR: Farfield results are empty or incomplete.'')"
  by (simp add: get_axial_ratio_at_freq_def call_getFarField_Some)

text \<open>
  C7. When the query answers with values that cannot be coerced to real scalars (at least
  two values, one of the first two not coercible), each extractor raises the
  \<open>RuntimeError\<close> "Could not extract ...", and that error is not the error the same
  extractor raises on an incomplete answer: a caller can tell the two failures apart.
\<close>

theorem parse_error_distinct_from_incomplete:
  assumes "getFarField cg (gain_query target_freq port mode) = Inr results_g"
    and "2 \<le> length results_g"
    and "results_g ! 0 = NonScalar \<or> results_g ! 1 = NonScalar"
    and "getFarField ca (axial_ratio_query target_freq port mode) = Inr results_a"
    and "2 \<le> length results_a"
    and "results_a ! 0 = NonScalar \<or> results_a ! 1 = NonScalar"
    and "getFarField sg (gain_query target_freq port mode) = Inr short_g"
    and "length short_g < 2"
    and "getFarField sa (axial_ratio_query target_freq port mode) = Inr short_a"
    and "length short_a < 2"
  shows "fst (get_gain_at_freq (Some cg) target_freq port mode) =
           Inl (RuntimeError ''ERROR: Could not extract theta/phi values from CST farfield.'') \<and>
         fst (get_axial_ratio_at_freq (Some ca) target_freq port mode) =
           Inl (RuntimeError ''ERROR: Could not extract circular components from CST farfield.'') \<and>
         fst (get_gain_at_freq (Some cg) target_freq port mode) \<noteq>
           fst (get_gain_at_freq (Some sg) target_freq port mode) \<and>
         fst (get_axial_ratio_at_freq (Some ca) target_freq port mode) \<noteq>
           fst (get_axial_ratio_at_freq (Some sa) target_freq port mode)"
  using unparsed_gain [OF assms(1,2,3)] unparsed_axial_ratio [OF assms(4,5,6)]
    incomplete_gain [OF assms(7,8)] incomplete_axial_ratio [OF assms(9,10)]
  by simp

theorem parse_error_distinct_from_incomplete_witness:
  "2 \<le> length [Scalar 3, NonScalar] \<and> [Scalar 3, NonScalar] ! 1 = NonScalar \<and>
   2 \<le> length [NonScalar, Scalar 1] \<and> [NonScalar, Scalar 1] ! 0 = NonScalar \<and>
   length [Scalar 3] < 2 \<and> length ([] :: ff_item list) < 2 \<and>
   fst (get_gain_at_freq (Some (stub_project (Inr [Scalar 3, NonScalar])))
      (PyFloat (868 / 1000)) (PyInt 1) (PyInt 0)) =
     Inl (RuntimeError ''ERROR: Could not extract theta/phi values from CST farfield.'') \<and>
   fst (get_axial_ratio_at_freq (Some (stub_project (Inr [NonScalar, Scalar 1])))
      (PyFloat (868 / 1000)) (PyInt 1) (PyInt 0)) =
     Inl (RuntimeError ''ERROR: Could not extract circular components from CST farfield.'') \<and>
   fst (get_gain_at_freq (Some (stub_project (Inr [Scalar 3, NonScalar])))
      (PyFloat (868 / 1000)) (PyInt 1) (PyInt 0)) \<noteq>
   fst (get_gain_at_freq (Some (stub_project (Inr [Scalar 3])))
      (PyFloat (868 / 1000)) (PyInt 1) (PyInt 0)) \<and>
   fst (get_axial_ratio_at_freq (Some (stub_project (Inr [NonScalar, Scalar 1])))
      (PyFloat (868 / 1000)) (PyInt 1) (PyInt 0)) \<noteq>
   fst (get_axial_ratio_at_freq (Some (stub_project (Inr [])))
      (PyFloat (868 / 1000)) (PyInt 1) (PyInt 0))"
proof -
  have g: "getFarField (stub_project (Inr [Scalar 3, NonScalar]))
      (gain_query (PyFloat (868 / 1000)) (PyInt 1) (PyInt 0)) = Inr [Scalar 3, NonScalar]"
    by (simp add: stub_project_def)
  have a: "getFarField (stub_project (Inr [NonScalar, Scalar 1]))
      (axial_ratio_query (PyFloat (868 / 1000)) (PyInt 1) (PyInt 0)) = Inr [NonScalar, Scalar 1]"
    by (simp add: stub_project_def)
  have sg: "getFarField (stub_project (Inr [Scalar 3]))
      (gain_query (PyFloat (868 / 1000)) (PyInt 1) (PyInt 0)) = Inr [Scalar 3]"
    by (simp add: stub_project_def)
  have sa: "getFarField (stub_project (Inr []))
      (axial_ratio_query (PyFloat (868 / 1000)) (PyInt 1) (PyInt 0)) = Inr []"
    by (simp add: stub_project_def)
  have lg: "2 \<le> length [Scalar 3, NonScalar]"
    by simp
  have la: "2 \<le> length [NonScalar, Scalar 1]"
    by simp
  have n1: "[Scalar 3, NonScalar] ! 1 = NonScalar"
    by simp
  then have ng: "[Scalar 3, NonScalar] ! 0 = NonScalar \<or> [Scalar 3, NonScalar] ! 1 = NonScalar"
    by (rule disjI2)
  have n0: "[NonScalar, Scalar 1] ! 0 = NonScalar"
    by simp
  then have na: "[NonScalar, Scalar 1] ! 0 = NonScalar \<or> [NonScalar, Scalar 1] ! 1 = NonScalar"
    by (rule disjI1)
  have ls: "length [Scalar 3] < 2"
    by simp
  have le: "length ([] :: ff_item list) < 2"
    by simp
  from lg n1 la n0 ls le parse_error_distinct_from_incomplete [OF g lg ng a la na sg ls sa le]
  show ?thesis
    by blast
qed

subsection \<open>Failures of the external call\<close>

lemma failed_call_gain:
  "getFarField c (gain_query target_freq port mode) = Inl err \<Longrightarrow>
   get_gain_at_freq (Some c) target_freq port mode =
     (Inl (wrap_failure err), [gain_query target_freq port mode])"
  by (simp add: get_gain_at_freq_def call_getFarField_Some)

lemma failed_call_axial_ratio:
  "getFarField c (axial_ratio_query target_freq port mode) = Inl err \<Longrightarrow>
   get_axial_ratio_at_freq (Some c) target_freq port mode =
     (Inl (wrap_failure err), [axial_ratio_query target_freq port mode])"
  by (simp add: get_axial_ratio_at_freq_def call_getFarField_Some)

text \<open>
  A failure that carries a text is wrapped into a \<open>RuntimeError\<close> whose message ends with
  that text: the \<open>str\<close> of any exception other than a \<open>com_error\<close>, and the description in
  the \<open>excepinfo\<close> tuple of a \<open>com_error\<close>.
\<close>

lemma wrap_failure_other:
  "wrap_failure (Other_exception msg) =
     RuntimeError (''ERROR: Unexpected failure retrieving farfield results. '' @ msg)"
  by (simp add: wrap_failure_def)

lemma wrap_failure_com_text:
  "wrap_failure (Com_error (Excepinfo_tuple (Some text))) =
     RuntimeError (''ERROR: CST failed to retrieve farfield data. Details: '' @ text)"
  by (simp add: wrap_failure_def)

lemma wrap_failure_kind:
  "err \<noteq> Com_error Excepinfo_None \<Longrightarrow> kind_of (wrap_failure err) = RuntimeError_kind"
  by (simp add: wrap_failure_def split: cst_failure.splits excepinfo.splits option.splits)

text \<open>
  C6, at a \<open>com_error\<close> whose \<open>excepinfo\<close> is \<open>None\<close>. The claim asks for a wrapped
  \<open>RuntimeError\<close>; both extractors raise a \<open>TypeError\<close> from inside the handler instead.
\<close>

theorem com_error_without_excepinfo:
  "get_gain_at_freq (Some (stub_project (Inl (Com_error Excepinfo_None))))
      (PyFloat (868 / 1000)) (PyInt 1) (PyInt 0) =
     (Inl (TypeError ([CHR 0x27] @ ''NoneType'' @ [CHR 0x27] @ '' object is not subscriptable'')),
      [gain_query (PyFloat (868 / 1000)) (PyInt 1) (PyInt 0)]) \<and>
   get_axial_ratio_at_freq (Some (stub_project (Inl (Com_error Excepinfo_None))))
      (PyFloat (868 / 1000)) (PyInt 1) (PyInt 0) =
     (Inl (TypeError ([CHR 0x27] @ ''NoneType'' @ [CHR 0x27] @ '' object is not subscriptable'')),
      [axial_ratio_query (PyFloat (868 / 1000)) (PyInt 1) (PyInt 0)])"
  by (simp add: get_gain_at_freq_def get_axial_ratio_at_freq_def call_getFarField_Some
      stub_project_def wrap_failure_def)

subsection \<open>Arguments that the validator rejects\<close>

text \<open>Two stand-in answers, for any arguments.\<close>

lemma stub_gain_3_3:
  "get_gain_at_freq (Some (stub_project (Inr [Scalar 3, Scalar 3]))) target_freq port mode =
     (Inr (Fin (10 * log 10 (10 powr (3 / 10) + 10 powr (3 / 10)))),
      [gain_query target_freq port mode])"
proof (rule gain_inside)
  show "getFarField (stub_project (Inr [Scalar 3, Scalar 3])) (gain_query target_freq port mode) =
      Inr (Scalar 3 # Scalar 3 # [])"
    by (simp add: stub_project_def)
  show "py_pow10 (3 / 10) = Inr (Fin (10 powr (3 / 10)))"
    by (rule py_pow10_unit) simp_all
  then show "py_pow10 (3 / 10) = Inr (Fin (10 powr (3 / 10)))" .
  show "float_add (Fin (10 powr (3 / 10))) (Fin (10 powr (3 / 10))) =
      Fin (10 powr (3 / 10) + 10 powr (3 / 10))"
    by (rule float_add_unit) simp_all
  show "0 < (10::real) powr (3 / 10) + 10 powr (3 / 10)"
    by (rule linear_sum_pos)
qed

lemma stub_axial_ratio_2_0:
  "get_axial_ratio_at_freq (Some (stub_project (Inr [Scalar 2, Scalar 0]))) target_freq port mode =
     (Inr (Fin 0), [axial_ratio_query target_freq port mode])"
proof -
  have h: "getFarField (stub_project (Inr [Scalar 2, Scalar 0]))
      (axial_ratio_query target_freq port mode) = Inr (Scalar 2 # Scalar 0 # [])"
    by (simp add: stub_project_def)
  have q: "((2::real) + 0) / max (2 - 0) (1 / 10 ^ 300) = 1"
    by simp
  have s: "\<bar>(2::real) + 0\<bar> < overflow_threshold" and d: "\<bar>(2::real) - 0\<bar> < overflow_threshold"
    using overflow_threshold_above_20 by simp_all
  have r: "double_range (((2::real) + 0) / max (2 - 0) (1 / 10 ^ 300))"
    unfolding q using overflow_threshold_above_20 underflow_threshold_below_one
    by (simp add: double_range_def)
  have "float_div (float_add (Fin 2) (Fin 0)) (py_max (float_sub (Fin 2) (Fin 0)) (Fin (1 / 10 ^ 300))) =
      Fin (((2::real) + 0) / max (2 - 0) (1 / 10 ^ 300))"
    by (rule axial_ratio_inside [OF s d r])
  then have "float_div (float_add (Fin 2) (Fin 0)) (py_max (float_sub (Fin 2) (Fin 0)) (Fin (1 / 10 ^ 300))) =
      Fin 1"
    by (simp only: q)
  then have "fst (get_axial_ratio_at_freq (Some (stub_project (Inr [Scalar 2, Scalar 0])))
      target_freq port mode) = Inr (Fin 0)"
    using axial_ratio_reduction [OF h] by simp
  moreover have "snd (get_axial_ratio_at_freq (Some (stub_project (Inr [Scalar 2, Scalar 0])))
      target_freq port mode) = [axial_ratio_query target_freq port mode]"
    by (rule get_axial_ratio_at_freq_issues_query)
  ultimately show ?thesis
    by (simp add: prod_eq_iff)
qed

text \<open>
  C3, at \<open>target_freq = "abc"\<close>. The validator, awaited, raises the \<open>TypeError\<close>. Neither
  extractor awaits it: each issues the query with the string as frequency and returns what
  the answer reduces to.
\<close>

theorem non_real_target_freq_reaches_query:
  "await (validate_common_inputs (Some (stub_project (Inr [Scalar 3, Scalar 3])))
      (PyStr ''abc'') (PyInt 1) (PyInt 0)) =
     Inl (TypeError ''ERROR: target_freq must be float or int.'') \<and>
   get_gain_at_freq (Some (stub_project (Inr [Scalar 3, Scalar 3])))
      (PyStr ''abc'') (PyInt 1) (PyInt 0) =
     (Inr (Fin (10 * log 10 (10 powr (3 / 10) + 10 powr (3 / 10)))),
      [gain_query (PyStr ''abc'') (PyInt 1) (PyInt 0)]) \<and>
   get_axial_ratio_at_freq (Some (stub_project (Inr [Scalar 2, Scalar 0])))
      (PyStr ''abc'') (PyInt 1) (PyInt 0) =
     (Inr (Fin 0), [axial_ratio_query (PyStr ''abc'') (PyInt 1) (PyInt 0)])"
proof (intro conjI)
  show "await (validate_common_inputs (Some (stub_project (Inr [Scalar 3, Scalar 3])))
      (PyStr ''abc'') (PyInt 1) (PyInt 0)) =
     Inl (TypeError ''ERROR: target_freq must be float or int.'')"
    by (simp add: validate_common_inputs_def)
  show "get_gain_at_freq (Some (stub_project (Inr [Scalar 3, Scalar 3])))
      (PyStr ''abc'') (PyInt 1) (PyInt 0) =
     (Inr (Fin (10 * log 10 (10 powr (3 / 10) + 10 powr (3 / 10)))),
      [gain_query (PyStr ''abc'') (PyInt 1) (PyInt 0)])"
    by (rule stub_gain_3_3)
  show "get_axial_ratio_at_freq (Some (stub_project (Inr [Scalar 2, Scalar 0])))
      (PyStr ''abc'') (PyInt 1) (PyInt 0) =
     (Inr (Fin 0), [axial_ratio_query (PyStr ''abc'') (PyInt 1) (PyInt 0)])"
    by (rule stub_axial_ratio_2_0)
qed

text \<open>
  C4, at \<open>port = 0\<close> and at \<open>mode = -1\<close>. The validator, awaited, raises the \<open>ValueError\<close>
  for each. Neither extractor awaits it: each issues the query with the bad port or mode
  and returns what the answer reduces to.
\<close>

theorem out_of_range_port_mode_reach_query:
  "await (validate_common_inputs (Some (stub_project (Inr [Scalar 3, Scalar 3])))
      (PyFloat (868 / 1000)) (PyInt 0) (PyInt 0)) =
     Inl (ValueError ''ERROR: port must be an integer >= 1.'') \<and>
   await (validate_common_inputs (Some (stub_project (Inr [Scalar 3, Scalar 3])))
      (PyFloat (868 / 1000)) (PyInt 1) (PyInt (- 1))) =
     Inl (ValueError ''ERROR: mode must be an integer >= 0.'') \<and>
   get_gain_at_freq (Some (stub_project (Inr [Scalar 3, Scalar 3])))
      (PyFloat (868 / 1000)) (PyInt 0) (PyInt 0) =
     (Inr (Fin (10 * log 10 (10 powr (3 / 10) + 10 powr (3 / 10)))),
      [gain_query (PyFloat (868 / 1000)) (PyInt 0) (PyInt 0)]) \<and>
   get_gain_at_freq (Some (stub_project (Inr [Scalar 3, Scalar 3])))
      (PyFloat (868 / 1000)) (PyInt 1) (PyInt (- 1)) =
     (Inr (Fin (10 * log 10 (10 powr (3 / 10) + 10 powr (3 / 10)))),
      [gain_query (PyFloat (868 / 1000)) (PyInt 1) (PyInt (- 1))]) \<and>
   get_axial_ratio_at_freq (Some (stub_project (Inr [Scalar 2, Scalar 0])))
      (PyFloat (868 / 1000)) (PyInt 0) (PyInt 0) =
     (Inr (Fin 0), [axial_ratio_query (PyFloat (868 / 1000)) (PyInt 0) (PyInt 0)]) \<and>
   get_axial_ratio_at_freq (Some (stub_project (Inr [Scalar 2, Scalar 0])))
      (PyFloat (868 / 1000)) (PyInt 1) (PyInt (- 1)) =
     (Inr (Fin 0), [axial_ratio_query (PyFloat (868 / 1000)) (PyInt 1) (PyInt (- 1))])"
proof -
  have v: "await (validate_common_inputs (Some (stub_project (Inr [Scalar 3, Scalar 3])))
        (PyFloat (868 / 1000)) (PyInt 0) (PyInt 0)) =
       Inl (ValueError ''ERROR: port must be an integer >= 1.'')"
      "await (validate_common_inputs (Some (stub_project (Inr [Scalar 3, Scalar 3])))
        (PyFloat (868 / 1000)) (PyInt 1) (PyInt (- 1))) =
       Inl (ValueError ''ERROR: mode must be an integer >= 0.'')"
    by (simp_all add: validate_common_inputs_def)
  from v stub_gain_3_3 stub_axial_ratio_2_0 show ?thesis
    by (intro conjI) (simp_all only:)
qed

end
